theory Spec2Isabelle
  imports Main "HOL-Library.Multiset"
begin

section \<open>The storage layer of sora2api (src/core/database.py)\<close>

text \<open>
  The class \<open>Database\<close> talks to PostgreSQL through asyncpg. Every method acquires a
  connection from the pool and sends one or a few statements, each committed on its own:
  no method opens a transaction. The embedding keeps the tables as lists of rows
  (a record per table), passes the database explicitly, and gives every method the clock
  readings it takes (\<open>date.today()\<close> in Python, \<open>CURRENT_TIMESTAMP\<close> in SQL) as
  arguments. Within one call the clock is read once.

  Timestamps and dates are integers (microseconds, days). A nullable column is an
  \<open>option\<close>. The counters are \<open>INTEGER DEFAULT 0\<close> columns that no statement of the
  class ever sets to NULL, so they are plain integers; the 32-bit range of the column
  type is not modelled.
\<close>

type_synonym timestamp = int
type_synonym date = int

subsection \<open>Errors raised by the driver\<close>

text \<open>
  A statement either runs or raises. The constraint violations come from the schema of
  \<open>init_db\<close>; \<open>DataError\<close> is what asyncpg raises for an argument whose Python type
  does not fit the column; the last two stand for failures of the connection itself.
\<close>

datatype db_error =
    UniqueViolationError
  | ForeignKeyViolationError
  | DataError
  | ConnectionDoesNotExistError
  | QueryCanceledError

subsection \<open>Python values and the driver's argument encoding\<close>

text \<open>
  The bootstrap reads its overrides from a dictionary of sections (the parsed
  setting.toml), each section a dictionary from keys to scalar values. A dictionary is an
  association list read with \<open>map_of\<close>.
\<close>

datatype py_value = PyBool bool | PyInt int | PyStr string

type_synonym py_dict = "(string \<times> py_value) list"
type_synonym config_dict = "(string \<times> py_dict) list"

text \<open>Python's truth value: \<open>if x\<close>, \<open>x if x else None\<close>.\<close>

fun truthy :: "py_value \<Rightarrow> bool" where
  "truthy (PyBool b) = b"
| "truthy (PyInt n) = (n \<noteq> 0)"
| "truthy (PyStr s) = (s \<noteq> [])"

text \<open>\<open>if config_dict:\<close> holds for a dictionary that is given and not empty.\<close>

definition config_truthy :: "config_dict option \<Rightarrow> bool" where
  "config_truthy config = (case config of None \<Rightarrow> False | Some d \<Rightarrow> d \<noteq> [])"

text \<open>\<open>config_dict.get(key, {})\<close> and \<open>section.get(key, default)\<close>.\<close>

definition get_section :: "config_dict option \<Rightarrow> string \<Rightarrow> py_dict" where
  "get_section config key =
     (case config of
        None \<Rightarrow> []
      | Some d \<Rightarrow> (case map_of d key of None \<Rightarrow> [] | Some sec \<Rightarrow> sec))"

definition dict_get :: "py_dict \<Rightarrow> string \<Rightarrow> py_value \<Rightarrow> py_value" where
  "dict_get d key dflt = (case map_of d key of None \<Rightarrow> dflt | Some v \<Rightarrow> v)"

text \<open>\<open>x if x else None\<close>\<close>

definition or_none :: "py_value \<Rightarrow> py_value option" where
  "or_none v = (if truthy v then Some v else None)"

text \<open>
  asyncpg encodes every argument by the type of its column before the statement is sent:
  a \<open>TEXT\<close> argument must be a \<open>str\<close>, a \<open>BOOLEAN\<close> argument a \<open>bool\<close>, an
  \<open>INTEGER\<close> argument an integer within 32 bits (a \<open>bool\<close> counts as 0 or 1);
  \<open>None\<close> is NULL for every type. Anything else raises \<open>DataError\<close> and nothing is
  written.
\<close>

fun text_param :: "py_value option \<Rightarrow> db_error + string option" where
  "text_param None = Inr None"
| "text_param (Some (PyStr s)) = Inr (Some s)"
| "text_param (Some _) = Inl DataError"

fun bool_param :: "py_value option \<Rightarrow> db_error + bool option" where
  "bool_param None = Inr None"
| "bool_param (Some (PyBool b)) = Inr (Some b)"
| "bool_param (Some _) = Inl DataError"

definition int4_range :: "int \<Rightarrow> bool" where
  "int4_range n \<longleftrightarrow> - 2147483648 \<le> n \<and> n \<le> 2147483647"

fun int_param :: "py_value option \<Rightarrow> db_error + int option" where
  "int_param None = Inr None"
| "int_param (Some (PyInt n)) = (if int4_range n then Inr (Some n) else Inl DataError)"
| "int_param (Some (PyBool b)) = Inr (Some (if b then 1 else 0))"
| "int_param (Some (PyStr s)) = Inl DataError"

text \<open>An exception ends the method: the rest runs only on a value.\<close>

definition bind_err :: "'e + 'a \<Rightarrow> ('a \<Rightarrow> 'e + 'b) \<Rightarrow> 'e + 'b" where
  "bind_err r f = (case r of Inl e \<Rightarrow> Inl e | Inr v \<Rightarrow> f v)"

subsection \<open>Rows\<close>

text \<open>
  One record per table of \<open>init_db\<close>, with its columns. The column \<open>id\<close> is called
  \<open>id_col\<close>. Columns that several tables share (\<open>id_col\<close>, \<open>created_at\<close>,
  \<open>updated_at\<close>, \<open>proxy_url\<close>) are written with the record's name in front; without
  one they are those of \<open>Token\<close>.
\<close>

record AdminConfig =
  id_col :: int
  admin_username :: "string option"
  admin_password :: "string option"
  api_key :: "string option"
  error_ban_threshold :: "int option"
  task_retry_enabled :: "bool option"
  task_max_retries :: "int option"
  auto_disable_on_401 :: "bool option"
  updated_at :: "timestamp option"

record ProxyConfig =
  id_col :: int
  proxy_enabled :: "bool option"
  proxy_url :: "string option"
  created_at :: "timestamp option"
  updated_at :: "timestamp option"

record WatermarkFreeConfig =
  id_col :: int
  watermark_free_enabled :: "bool option"
  parse_method :: "string option"
  custom_parse_url :: "string option"
  custom_parse_token :: "string option"
  fallback_on_failure :: "bool option"
  created_at :: "timestamp option"
  updated_at :: "timestamp option"

record CacheConfig =
  id_col :: int
  cache_enabled :: "bool option"
  cache_timeout :: "int option"
  cache_base_url :: "string option"
  created_at :: "timestamp option"
  updated_at :: "timestamp option"

record GenerationConfig =
  id_col :: int
  image_timeout :: "int option"
  video_timeout :: "int option"
  created_at :: "timestamp option"
  updated_at :: "timestamp option"

record TokenRefreshConfig =
  id_col :: int
  at_auto_refresh_enabled :: "bool option"
  created_at :: "timestamp option"
  updated_at :: "timestamp option"

record CallLogicConfig =
  id_col :: int
  call_mode :: "string option"
  polling_mode_enabled :: "bool option"
  created_at :: "timestamp option"
  updated_at :: "timestamp option"

record PowProxyConfig =
  id_col :: int
  pow_proxy_enabled :: "bool option"
  pow_proxy_url :: "string option"
  created_at :: "timestamp option"
  updated_at :: "timestamp option"

record TokenStats =
  id_col :: int
  token_id :: int
  image_count :: int
  video_count :: int
  error_count :: int
  last_error_at :: "timestamp option"
  today_image_count :: int
  today_video_count :: int
  today_error_count :: int
  today_date :: "date option"
  consecutive_error_count :: int

text \<open>
  Modelled from the spec: the class \<open>Token\<close> of models.py is not part of the sources
  (nor are \<open>TokenStats\<close> and the configuration classes above). Its objects are built
  from whole rows (\<open>Token(**self._row_to_dict(row))\<close>), so a \<open>Token\<close> carries the
  columns of the table \<open>tokens\<close>, with the types the spec's data model gives them.
\<close>

record Token =
  id_col :: int
  token :: string
  email :: string
  username :: string
  name :: string
  st :: "string option"
  rt :: "string option"
  client_id :: "string option"
  proxy_url :: "string option"
  remark :: "string option"
  expiry_time :: "timestamp option"
  is_active :: bool
  cooled_until :: "timestamp option"
  created_at :: "timestamp option"
  last_used_at :: "timestamp option"
  use_count :: int
  plan_type :: "string option"
  plan_title :: "string option"
  subscription_end :: "timestamp option"
  sora2_supported :: "bool option"
  sora2_invite_code :: "string option"
  sora2_redeemed_count :: int
  sora2_total_count :: int
  sora2_remaining_count :: int
  sora2_cooldown_until :: "timestamp option"
  image_enabled :: bool
  video_enabled :: bool
  image_concurrency :: int
  video_concurrency :: int
  is_expired :: bool

subsection \<open>The database\<close>

text \<open>
  The tables the methods below read and write, and the sequences behind the two
  \<open>SERIAL\<close> keys (the value the next \<open>INSERT\<close> draws).
\<close>

record database =
  tokens :: "Token list"
  tokens_id_seq :: int
  token_stats :: "TokenStats list"
  token_stats_id_seq :: int
  admin_config :: "AdminConfig list"
  proxy_config :: "ProxyConfig list"
  watermark_free_config :: "WatermarkFreeConfig list"
  cache_config :: "CacheConfig list"
  generation_config :: "GenerationConfig list"
  token_refresh_config :: "TokenRefreshConfig list"
  call_logic_config :: "CallLogicConfig list"
  pow_proxy_config :: "PowProxyConfig list"

text \<open>\<open>init_db\<close> on a fresh server: every table exists and is empty.\<close>

definition init_db :: database where
  "init_db =
     \<lparr>tokens = [], tokens_id_seq = 1, token_stats = [], token_stats_id_seq = 1,
      admin_config = [], proxy_config = [], watermark_free_config = [], cache_config = [],
      generation_config = [], token_refresh_config = [], call_logic_config = [],
      pow_proxy_config = []\<rparr>"

subsection \<open>Usage counters\<close>






subsection \<open>Bootstrap of the configuration rows\<close>

text \<open>
  \<open>_ensure_config_rows(conn, config_dict)\<close> looks at each configuration table in turn
  and, when the table is empty, inserts the row with key 1: from the overrides when
  \<open>config_dict\<close> is truthy, from the defaults otherwise. \<open>created_at\<close> and
  \<open>updated_at\<close> take their column default \<open>CURRENT_TIMESTAMP\<close>. Each definition below
  is one \<open>count\<close>/\<open>INSERT\<close> pair of the method.
\<close>

definition ensure_admin_config_row ::
  "config_dict option \<Rightarrow> timestamp \<Rightarrow> database \<Rightarrow> db_error + database" where
  "ensure_admin_config_row config now db =
     (if length (admin_config db) = 0 then
        (let global_config = get_section config ''global'';
             admin_section = get_section config ''admin'';
             admin_username' = (if config_truthy config
                then dict_get global_config ''admin_username'' (PyStr ''admin'')
                else PyStr ''admin'');
             admin_password' = (if config_truthy config
                then dict_get global_config ''admin_password'' (PyStr ''admin'')
                else PyStr ''admin'');
             api_key' = (if config_truthy config
                then dict_get global_config ''api_key'' (PyStr ''han1234'')
                else PyStr ''han1234'');
             error_ban_threshold' = (if config_truthy config
                then dict_get admin_section ''error_ban_threshold'' (PyInt 3) else PyInt 3);
             task_retry_enabled' = (if config_truthy config
                then dict_get admin_section ''task_retry_enabled'' (PyBool True)
                else PyBool True);
             task_max_retries' = (if config_truthy config
                then dict_get admin_section ''task_max_retries'' (PyInt 3) else PyInt 3);
             auto_disable_on_401' = (if config_truthy config
                then dict_get admin_section ''auto_disable_on_401'' (PyBool True)
                else PyBool True)
         in bind_err (text_param (Some admin_username')) (\<lambda>a1.
            bind_err (text_param (Some admin_password')) (\<lambda>a2.
            bind_err (text_param (Some api_key')) (\<lambda>a3.
            bind_err (int_param (Some error_ban_threshold')) (\<lambda>a4.
            bind_err (bool_param (Some task_retry_enabled')) (\<lambda>a5.
            bind_err (int_param (Some task_max_retries')) (\<lambda>a6.
            bind_err (bool_param (Some auto_disable_on_401')) (\<lambda>a7.
              Inr (db\<lparr>admin_config := admin_config db @
                [\<lparr>AdminConfig.id_col = 1, admin_username = a1, admin_password = a2,
                  api_key = a3, error_ban_threshold = a4, task_retry_enabled = a5,
                  task_max_retries = a6, auto_disable_on_401 = a7,
                  AdminConfig.updated_at = Some now\<rparr>]\<rparr>)))))))))
      else Inr db)"

definition ensure_proxy_config_row ::
  "config_dict option \<Rightarrow> timestamp \<Rightarrow> database \<Rightarrow> db_error + database" where
  "ensure_proxy_config_row config now db =
     (if length (proxy_config db) = 0 then
        (let proxy_section = get_section config ''proxy'';
             proxy_enabled' = (if config_truthy config
                then dict_get proxy_section ''proxy_enabled'' (PyBool False)
                else PyBool False);
             proxy_url' = (if config_truthy config
                then or_none (dict_get proxy_section ''proxy_url'' (PyStr []))
                else None)
         in bind_err (bool_param (Some proxy_enabled')) (\<lambda>a1.
            bind_err (text_param proxy_url') (\<lambda>a2.
              Inr (db\<lparr>proxy_config := proxy_config db @
                [\<lparr>ProxyConfig.id_col = 1, proxy_enabled = a1, ProxyConfig.proxy_url = a2,
                  ProxyConfig.created_at = Some now,
                  ProxyConfig.updated_at = Some now\<rparr>]\<rparr>))))
      else Inr db)"

definition ensure_watermark_free_config_row ::
  "config_dict option \<Rightarrow> timestamp \<Rightarrow> database \<Rightarrow> db_error + database" where
  "ensure_watermark_free_config_row config now db =
     (if length (watermark_free_config db) = 0 then
        (let watermark_config = get_section config ''watermark_free'';
             watermark_free_enabled' = (if config_truthy config
                then dict_get watermark_config ''watermark_free_enabled'' (PyBool False)
                else PyBool False);
             parse_method' = (if config_truthy config
                then dict_get watermark_config ''parse_method'' (PyStr ''third_party'')
                else PyStr ''third_party'');
             custom_parse_url' = (if config_truthy config
                then or_none (dict_get watermark_config ''custom_parse_url'' (PyStr []))
                else None);
             custom_parse_token' = (if config_truthy config
                then or_none (dict_get watermark_config ''custom_parse_token'' (PyStr []))
                else None);
             fallback_on_failure' = (if config_truthy config
                then dict_get watermark_config ''fallback_on_failure'' (PyBool True)
                else PyBool True)
         in bind_err (bool_param (Some watermark_free_enabled')) (\<lambda>a1.
            bind_err (text_param (Some parse_method')) (\<lambda>a2.
            bind_err (text_param custom_parse_url') (\<lambda>a3.
            bind_err (text_param custom_parse_token') (\<lambda>a4.
            bind_err (bool_param (Some fallback_on_failure')) (\<lambda>a5.
              Inr (db\<lparr>watermark_free_config := watermark_free_config db @
                [\<lparr>WatermarkFreeConfig.id_col = 1, watermark_free_enabled = a1,
                  parse_method = a2, custom_parse_url = a3, custom_parse_token = a4,
                  fallback_on_failure = a5,
                  WatermarkFreeConfig.created_at = Some now,
                  WatermarkFreeConfig.updated_at = Some now\<rparr>]\<rparr>)))))))
      else Inr db)"

definition ensure_cache_config_row ::
  "config_dict option \<Rightarrow> timestamp \<Rightarrow> database \<Rightarrow> db_error + database" where
  "ensure_cache_config_row config now db =
     (if length (cache_config db) = 0 then
        (let cache_section = get_section config ''cache'';
             cache_enabled' = (if config_truthy config
                then dict_get cache_section ''enabled'' (PyBool False) else PyBool False);
             cache_timeout' = (if config_truthy config
                then dict_get cache_section ''timeout'' (PyInt 600) else PyInt 600);
             cache_base_url' = (if config_truthy config
                then or_none (dict_get cache_section ''base_url'' (PyStr []))
                else None)
         in bind_err (bool_param (Some cache_enabled')) (\<lambda>a1.
            bind_err (int_param (Some cache_timeout')) (\<lambda>a2.
            bind_err (text_param cache_base_url') (\<lambda>a3.
              Inr (db\<lparr>cache_config := cache_config db @
                [\<lparr>CacheConfig.id_col = 1, cache_enabled = a1, cache_timeout = a2,
                  cache_base_url = a3,
                  CacheConfig.created_at = Some now,
                  CacheConfig.updated_at = Some now\<rparr>]\<rparr>)))))
      else Inr db)"

definition ensure_generation_config_row ::
  "config_dict option \<Rightarrow> timestamp \<Rightarrow> database \<Rightarrow> db_error + database" where
  "ensure_generation_config_row config now db =
     (if length (generation_config db) = 0 then
        (let generation_section = get_section config ''generation'';
             image_timeout' = (if config_truthy config
                then dict_get generation_section ''image_timeout'' (PyInt 300)
                else PyInt 300);
             video_timeout' = (if config_truthy config
                then dict_get generation_section ''video_timeout'' (PyInt 3000)
                else PyInt 3000)
         in bind_err (int_param (Some image_timeout')) (\<lambda>a1.
            bind_err (int_param (Some video_timeout')) (\<lambda>a2.
              Inr (db\<lparr>generation_config := generation_config db @
                [\<lparr>GenerationConfig.id_col = 1, image_timeout = a1, video_timeout = a2,
                  GenerationConfig.created_at = Some now,
                  GenerationConfig.updated_at = Some now\<rparr>]\<rparr>))))
      else Inr db)"

definition ensure_token_refresh_config_row ::
  "config_dict option \<Rightarrow> timestamp \<Rightarrow> database \<Rightarrow> db_error + database" where
  "ensure_token_refresh_config_row config now db =
     (if length (token_refresh_config db) = 0 then
        (let token_refresh_section = get_section config ''token_refresh'';
             at_auto_refresh_enabled' = (if config_truthy config
                then dict_get token_refresh_section ''at_auto_refresh_enabled'' (PyBool False)
                else PyBool False)
         in bind_err (bool_param (Some at_auto_refresh_enabled')) (\<lambda>a1.
              Inr (db\<lparr>token_refresh_config := token_refresh_config db @
                [\<lparr>TokenRefreshConfig.id_col = 1, at_auto_refresh_enabled = a1,
                  TokenRefreshConfig.created_at = Some now,
                  TokenRefreshConfig.updated_at = Some now\<rparr>]\<rparr>)))
      else Inr db)"

text \<open>
  The call-mode values (lines 224 to 236 of the source): \<open>call_mode\<close> and
  \<open>polling_mode_enabled\<close> as they stand when the \<open>INSERT\<close> is reached.
\<close>

definition call_logic_values :: "config_dict option \<Rightarrow> py_value \<times> py_value" where
  "call_logic_values config =
     (if config_truthy config then
        (let call_logic_section = get_section config ''call_logic'';
             call_mode' = dict_get call_logic_section ''call_mode'' (PyStr ''default'')
         in if call_mode' \<noteq> PyStr ''default'' \<and> call_mode' \<noteq> PyStr ''polling'' then
              (let polling_mode_enabled' =
                     dict_get call_logic_section ''polling_mode_enabled'' (PyBool False)
               in (PyStr (if truthy polling_mode_enabled' then ''polling'' else ''default''),
                   polling_mode_enabled'))
            else (call_mode', PyBool (call_mode' = PyStr ''polling'')))
      else (PyStr ''default'', PyBool False))"

definition ensure_call_logic_config_row ::
  "config_dict option \<Rightarrow> timestamp \<Rightarrow> database \<Rightarrow> db_error + database" where
  "ensure_call_logic_config_row config now db =
     (if length (call_logic_config db) = 0 then
        bind_err (text_param (Some (fst (call_logic_values config)))) (\<lambda>a1.
        bind_err (bool_param (Some (snd (call_logic_values config)))) (\<lambda>a2.
          Inr (db\<lparr>call_logic_config := call_logic_config db @
            [\<lparr>CallLogicConfig.id_col = 1, call_mode = a1, polling_mode_enabled = a2,
              CallLogicConfig.created_at = Some now,
              CallLogicConfig.updated_at = Some now\<rparr>]\<rparr>)))
      else Inr db)"

definition ensure_pow_proxy_config_row ::
  "config_dict option \<Rightarrow> timestamp \<Rightarrow> database \<Rightarrow> db_error + database" where
  "ensure_pow_proxy_config_row config now db =
     (if length (pow_proxy_config db) = 0 then
        (let pow_proxy_section = get_section config ''pow_proxy'';
             pow_proxy_enabled' = (if config_truthy config
                then dict_get pow_proxy_section ''pow_proxy_enabled'' (PyBool False)
                else PyBool False);
             pow_proxy_url' = (if config_truthy config
                then or_none (dict_get pow_proxy_section ''pow_proxy_url'' (PyStr []))
                else None)
         in bind_err (bool_param (Some pow_proxy_enabled')) (\<lambda>a1.
            bind_err (text_param pow_proxy_url') (\<lambda>a2.
              Inr (db\<lparr>pow_proxy_config := pow_proxy_config db @
                [\<lparr>PowProxyConfig.id_col = 1, pow_proxy_enabled = a1, pow_proxy_url = a2,
                  PowProxyConfig.created_at = Some now,
                  PowProxyConfig.updated_at = Some now\<rparr>]\<rparr>))))
      else Inr db)"

text \<open>
  The sections run in the order of the source. A section that raises ends the method;
  what the earlier sections inserted stays, since every statement commits on its own.
\<close>

fun run_sections ::
  "(database \<Rightarrow> db_error + database) list \<Rightarrow> database \<Rightarrow> database \<times> (db_error + unit)" where
  "run_sections [] db = (db, Inr ())"
| "run_sections (sec # secs) db =
     (case sec db of Inl e \<Rightarrow> (db, Inl e) | Inr db' \<Rightarrow> run_sections secs db')"

definition ensure_config_rows ::
  "config_dict option \<Rightarrow> timestamp \<Rightarrow> database \<Rightarrow> database \<times> (db_error + unit)" where
  "ensure_config_rows config now db =
     run_sections
       [ensure_admin_config_row config now,
        ensure_proxy_config_row config now,
        ensure_watermark_free_config_row config now,
        ensure_cache_config_row config now,
        ensure_generation_config_row config now,
        ensure_token_refresh_config_row config now,
        ensure_call_logic_config_row config now,
        ensure_pow_proxy_config_row config now] db"

text \<open>
  \<open>init_config_from_toml\<close>: the first start passes the overrides, an upgrade passes
  \<open>None\<close>.
\<close>

definition init_config_from_toml ::
  "config_dict \<Rightarrow> bool \<Rightarrow> timestamp \<Rightarrow> database \<Rightarrow> database \<times> (db_error + unit)" where
  "init_config_from_toml config is_first_startup now db =
     (if is_first_startup then ensure_config_rows (Some config) now db
      else ensure_config_rows None now db)"

subsection \<open>Updates of the configuration rows\<close>

text \<open>
  The arguments of these methods carry Python type annotations (\<open>bool\<close>, \<open>str\<close>,
  \<open>Optional[str]\<close>), which are their types here; \<open>None\<close> is NULL.
  \<open>UPDATE ... WHERE id = 1\<close> rewrites the rows with key 1.
\<close>

definition update_proxy_config ::
  "bool \<Rightarrow> string option \<Rightarrow> timestamp \<Rightarrow> database \<Rightarrow> database" where
  "update_proxy_config enabled proxy_url' now db =
     db\<lparr>proxy_config :=
          map (\<lambda>r. if ProxyConfig.id_col r = 1
                    then r\<lparr>proxy_enabled := Some enabled,
                           ProxyConfig.proxy_url := proxy_url',
                           ProxyConfig.updated_at := Some now\<rparr>
                    else r) (proxy_config db)\<rparr>"

text \<open>\<open>parse_method or "third_party"\<close>\<close>

definition str_or :: "string option \<Rightarrow> string \<Rightarrow> string" where
  "str_or v dflt = (case v of None \<Rightarrow> dflt | Some s \<Rightarrow> if s = [] then dflt else s)"

definition update_watermark_free_config ::
  "bool \<Rightarrow> string option \<Rightarrow> string option \<Rightarrow> string option \<Rightarrow> bool option \<Rightarrow>
   timestamp \<Rightarrow> database \<Rightarrow> database" where
  "update_watermark_free_config enabled parse_method' custom_parse_url' custom_parse_token'
       fallback_on_failure' now db =
     (if parse_method' = None \<and> custom_parse_url' = None \<and> custom_parse_token' = None
          \<and> fallback_on_failure' = None
      then
        db\<lparr>watermark_free_config :=
             map (\<lambda>r. if WatermarkFreeConfig.id_col r = 1
                       then r\<lparr>watermark_free_enabled := Some enabled,
                              WatermarkFreeConfig.updated_at := Some now\<rparr>
                       else r) (watermark_free_config db)\<rparr>
      else
        db\<lparr>watermark_free_config :=
             map (\<lambda>r. if WatermarkFreeConfig.id_col r = 1
                       then r\<lparr>watermark_free_enabled := Some enabled,
                              parse_method := Some (str_or parse_method' ''third_party''),
                              custom_parse_url := custom_parse_url',
                              custom_parse_token := custom_parse_token',
                              fallback_on_failure :=
                                Some (case fallback_on_failure' of None \<Rightarrow> True | Some b \<Rightarrow> b),
                              WatermarkFreeConfig.updated_at := Some now\<rparr>
                       else r) (watermark_free_config db)\<rparr>)"

text \<open>
  \<open>update_cache_config\<close> reads the row with key 1 first and keeps its values for the
  arguments that are \<open>None\<close>; \<open>new_base_url if new_base_url else None\<close> then turns an
  empty string into NULL.
\<close>

definition update_cache_config ::
  "bool option \<Rightarrow> int option \<Rightarrow> string option \<Rightarrow> timestamp \<Rightarrow> database \<Rightarrow> database" where
  "update_cache_config enabled timeout base_url now db =
     (let row = find (\<lambda>r. CacheConfig.id_col r = 1) (cache_config db);
          new_enabled =
            (case row of
               Some current \<Rightarrow> (case enabled of Some b \<Rightarrow> Some b | None \<Rightarrow> cache_enabled current)
             | None \<Rightarrow> (case enabled of Some b \<Rightarrow> Some b | None \<Rightarrow> Some False));
          new_timeout =
            (case row of
               Some current \<Rightarrow> (case timeout of Some n \<Rightarrow> Some n | None \<Rightarrow> cache_timeout current)
             | None \<Rightarrow> (case timeout of Some n \<Rightarrow> Some n | None \<Rightarrow> Some 600));
          new_base_url =
            (case row of
               Some current \<Rightarrow> (case base_url of Some u \<Rightarrow> Some u | None \<Rightarrow> cache_base_url current)
             | None \<Rightarrow> base_url);
          new_base_url' =
            (case new_base_url of None \<Rightarrow> None | Some u \<Rightarrow> if u \<noteq> [] then Some u else None)
      in db\<lparr>cache_config :=
              map (\<lambda>r. if CacheConfig.id_col r = 1
                        then r\<lparr>cache_enabled := new_enabled,
                               cache_timeout := new_timeout,
                               cache_base_url := new_base_url',
                               CacheConfig.updated_at := Some now\<rparr>
                        else r) (cache_config db)\<rparr>)"

text \<open>
  \<open>update_call_logic_config\<close> and \<open>update_pow_proxy_config\<close> count the rows with key 1
  and insert the row when there is none.
\<close>

definition update_call_logic_config :: "string \<Rightarrow> timestamp \<Rightarrow> database \<Rightarrow> database" where
  "update_call_logic_config call_mode' now db =
     (let normalized = (if call_mode' = ''polling'' then ''polling'' else ''default'');
          polling_mode_enabled' = (normalized = ''polling'')
      in if length (filter (\<lambda>r. CallLogicConfig.id_col r = 1) (call_logic_config db)) = 0
         then
           db\<lparr>call_logic_config := call_logic_config db @
                [\<lparr>CallLogicConfig.id_col = 1, call_mode = Some normalized,
                  polling_mode_enabled = Some polling_mode_enabled',
                  CallLogicConfig.created_at = Some now,
                  CallLogicConfig.updated_at = Some now\<rparr>]\<rparr>
         else
           db\<lparr>call_logic_config :=
                map (\<lambda>r. if CallLogicConfig.id_col r = 1
                          then r\<lparr>call_mode := Some normalized,
                                 polling_mode_enabled := Some polling_mode_enabled',
                                 CallLogicConfig.updated_at := Some now\<rparr>
                          else r) (call_logic_config db)\<rparr>)"

definition update_pow_proxy_config ::
  "bool \<Rightarrow> string option \<Rightarrow> timestamp \<Rightarrow> database \<Rightarrow> database" where
  "update_pow_proxy_config pow_proxy_enabled' pow_proxy_url' now db =
     (if length (filter (\<lambda>r. PowProxyConfig.id_col r = 1) (pow_proxy_config db)) = 0
      then
        db\<lparr>pow_proxy_config := pow_proxy_config db @
             [\<lparr>PowProxyConfig.id_col = 1, pow_proxy_enabled = Some pow_proxy_enabled',
               pow_proxy_url = pow_proxy_url',
               PowProxyConfig.created_at = Some now,
               PowProxyConfig.updated_at = Some now\<rparr>]\<rparr>
      else
        db\<lparr>pow_proxy_config :=
             map (\<lambda>r. if PowProxyConfig.id_col r = 1
                       then r\<lparr>pow_proxy_enabled := Some pow_proxy_enabled',
                              pow_proxy_url := pow_proxy_url',
                              PowProxyConfig.updated_at := Some now\<rparr>
                       else r) (pow_proxy_config db)\<rparr>)"

subsection \<open>Probing the catalog\<close>

text \<open>
  The migration asks \<open>information_schema\<close> whether a table or a column exists. The
  driver's call \<open>conn.fetchval\<close> either returns the value of the query or raises; the
  first argument says which (\<open>Some e\<close>: it raises \<open>e\<close>).
\<close>

record catalog =
  information_schema_tables :: "string list"
  information_schema_columns :: "(string \<times> string) list"

definition fetchval :: "db_error option \<Rightarrow> 'a \<Rightarrow> db_error + 'a" where
  "fetchval fault v = (case fault of Some e \<Rightarrow> Inl e | None \<Rightarrow> Inr v)"

text \<open>\<open>_table_exists\<close> returns what the query returns: nothing catches an exception.\<close>

definition table_exists :: "db_error option \<Rightarrow> catalog \<Rightarrow> string \<Rightarrow> db_error + bool" where
  "table_exists fault conn table_name =
     bind_err (fetchval fault (table_name \<in> set (information_schema_tables conn)))
       (\<lambda>result. Inr result)"

text \<open>\<open>_column_exists\<close> wraps the query in \<open>try\<close>; \<open>except: return False\<close>.\<close>

definition column_exists ::
  "db_error option \<Rightarrow> catalog \<Rightarrow> string \<Rightarrow> string \<Rightarrow> db_error + bool" where
  "column_exists fault conn table_name column_name =
     (case fetchval fault ((table_name, column_name) \<in> set (information_schema_columns conn)) of
        Inr result \<Rightarrow> Inr result
      | Inl e \<Rightarrow> Inr False)"

subsection \<open>Adding a token\<close>

text \<open>
  A method sends its statements one after the other on one connection, outside any
  transaction. The connection can fail under any of them (it is lost, the statement
  times out): \<open>faults\<close> lists, per statement of the call, the exception the driver
  raises instead of running it, if any.
\<close>

definition statement_fault :: "db_error option list \<Rightarrow> nat \<Rightarrow> db_error option" where
  "statement_fault faults k = (if k < length faults then faults ! k else None)"

text \<open>
  \<open>INSERT INTO tokens (...) VALUES (...) RETURNING id\<close>. The key is drawn from the
  sequence, and stays drawn when the row is refused. \<open>token\<close> is \<open>UNIQUE\<close>, \<open>id\<close> the
  primary key. The third value of the statement is the literal \<open>""\<close>, for the column
  \<open>username\<close>; the columns the statement does not list take their defaults.
\<close>

definition insert_into_tokens ::
  "timestamp \<Rightarrow> Token \<Rightarrow> database \<Rightarrow> database \<times> (db_error + int)" where
  "insert_into_tokens now t db =
     (let new_id = tokens_id_seq db;
          db1 = db\<lparr>tokens_id_seq := new_id + 1\<rparr>
      in if list_ex (\<lambda>r. token r = token t) (tokens db)
            \<or> list_ex (\<lambda>r. Token.id_col r = new_id) (tokens db)
         then (db1, Inl UniqueViolationError)
         else
           (db1\<lparr>tokens := tokens db @
              [\<lparr>Token.id_col = new_id,
                token = token t,
                email = email t,
                username = [],
                name = name t,
                st = st t,
                rt = rt t,
                client_id = client_id t,
                proxy_url = proxy_url t,
                remark = remark t,
                expiry_time = expiry_time t,
                is_active = is_active t,
                cooled_until = None,
                created_at = Some now,
                last_used_at = None,
                use_count = 0,
                plan_type = plan_type t,
                plan_title = plan_title t,
                subscription_end = subscription_end t,
                sora2_supported = sora2_supported t,
                sora2_invite_code = sora2_invite_code t,
                sora2_redeemed_count = sora2_redeemed_count t,
                sora2_total_count = sora2_total_count t,
                sora2_remaining_count = sora2_remaining_count t,
                sora2_cooldown_until = sora2_cooldown_until t,
                image_enabled = image_enabled t,
                video_enabled = video_enabled t,
                image_concurrency = image_concurrency t,
                video_concurrency = video_concurrency t,
                is_expired = False\<rparr>]\<rparr>,
            Inr new_id))"

text \<open>
  \<open>INSERT INTO token_stats (token_id) VALUES ($1)\<close>: every other column takes its
  default. \<open>token_id\<close> references \<open>tokens(id)\<close>.
\<close>

definition insert_into_token_stats ::
  "int \<Rightarrow> database \<Rightarrow> database \<times> (db_error + unit)" where
  "insert_into_token_stats tid db =
     (let new_id = token_stats_id_seq db;
          db1 = db\<lparr>token_stats_id_seq := new_id + 1\<rparr>
      in if list_ex (\<lambda>s. TokenStats.id_col s = new_id) (token_stats db)
         then (db1, Inl UniqueViolationError)
         else if \<not> list_ex (\<lambda>r. Token.id_col r = tid) (tokens db)
         then (db1, Inl ForeignKeyViolationError)
         else
           (db1\<lparr>token_stats := token_stats db @
              [\<lparr>TokenStats.id_col = new_id,
                token_id = tid,
                image_count = 0,
                video_count = 0,
                error_count = 0,
                last_error_at = None,
                today_image_count = 0,
                today_video_count = 0,
                today_error_count = 0,
                today_date = None,
                consecutive_error_count = 0\<rparr>]\<rparr>,
            Inr ()))"

text \<open>
  \<open>add_token\<close>: the two inserts in a row. An exception of either leaves the method at
  once, with the database as the statements before it left it.
\<close>

definition add_token ::
  "db_error option list \<Rightarrow> timestamp \<Rightarrow> Token \<Rightarrow> database \<Rightarrow> database \<times> (db_error + int)" where
  "add_token faults now t db =
     (case statement_fault faults 0 of
        Some e \<Rightarrow> (db, Inl e)
      | None \<Rightarrow>
          (case insert_into_tokens now t db of
             (db1, Inl e) \<Rightarrow> (db1, Inl e)
           | (db1, Inr token_id') \<Rightarrow>
               (case statement_fault faults 1 of
                  Some e \<Rightarrow> (db1, Inl e)
                | None \<Rightarrow>
                    (case insert_into_token_stats token_id' db1 of
                       (db2, Inl e) \<Rightarrow> (db2, Inl e)
                     | (db2, Inr _) \<Rightarrow> (db2, Inr token_id')))))"

subsection \<open>Listing the active tokens\<close>

text \<open>
  The \<open>WHERE\<close> clause of \<open>get_active_tokens\<close> is evaluated in SQL's three-valued
  logic: a comparison with NULL is unknown (\<open>None\<close>), and a row is kept only when the
  clause is true.
\<close>

type_synonym sql_bool = "bool option"

definition sql_and :: "sql_bool \<Rightarrow> sql_bool \<Rightarrow> sql_bool" where
  "sql_and a b =
     (if a = Some False \<or> b = Some False then Some False
      else if a = Some True \<and> b = Some True then Some True
      else None)"

definition sql_or :: "sql_bool \<Rightarrow> sql_bool \<Rightarrow> sql_bool" where
  "sql_or a b =
     (if a = Some True \<or> b = Some True then Some True
      else if a = Some False \<and> b = Some False then Some False
      else None)"

definition sql_lt :: "int option \<Rightarrow> int option \<Rightarrow> sql_bool" where
  "sql_lt a b = (case (a, b) of (Some x, Some y) \<Rightarrow> Some (x < y) | _ \<Rightarrow> None)"

definition sql_gt :: "int option \<Rightarrow> int option \<Rightarrow> sql_bool" where
  "sql_gt a b = (case (a, b) of (Some x, Some y) \<Rightarrow> Some (x > y) | _ \<Rightarrow> None)"

definition sql_is_null :: "'a option \<Rightarrow> sql_bool" where
  "sql_is_null a = Some (a = None)"

text \<open>
  \<open>is_active = TRUE AND (cooled_until IS NULL OR cooled_until < CURRENT_TIMESTAMP)
  AND expiry_time > CURRENT_TIMESTAMP\<close>
\<close>

definition active_where :: "timestamp \<Rightarrow> Token \<Rightarrow> sql_bool" where
  "active_where now t =
     sql_and
       (sql_and (Some (is_active t = True))
                (sql_or (sql_is_null (cooled_until t)) (sql_lt (cooled_until t) (Some now))))
       (sql_gt (expiry_time t) (Some now))"

text \<open>
  \<open>ORDER BY last_used_at ASC NULLS FIRST\<close>: NULL comes before every timestamp. SQL
  leaves the order of rows with equal keys open; the sort below keeps them in table
  order, and the theorems use nothing but the order of the keys.
\<close>

definition nulls_first_le :: "timestamp option \<Rightarrow> timestamp option \<Rightarrow> bool" where
  "nulls_first_le a b =
     (case a of None \<Rightarrow> True | Some x \<Rightarrow> (case b of None \<Rightarrow> False | Some y \<Rightarrow> x \<le> y))"

fun insert_by_last_used_at :: "Token \<Rightarrow> Token list \<Rightarrow> Token list" where
  "insert_by_last_used_at t [] = [t]"
| "insert_by_last_used_at t (r # rs) =
     (if nulls_first_le (last_used_at t) (last_used_at r) then t # r # rs
      else r # insert_by_last_used_at t rs)"

fun order_by_last_used_at :: "Token list \<Rightarrow> Token list" where
  "order_by_last_used_at [] = []"
| "order_by_last_used_at (t # ts) = insert_by_last_used_at t (order_by_last_used_at ts)"

definition get_active_tokens :: "timestamp \<Rightarrow> database \<Rightarrow> Token list" where
  "get_active_tokens now db =
     order_by_last_used_at (filter (\<lambda>t. active_where now t = Some True) (tokens db))"

text \<open>
  The spec's words for the same set: a credential is usable iff it is active, its
  cooldown is absent or in the past, and its expiry lies in the future.
\<close>

definition usable :: "timestamp \<Rightarrow> Token \<Rightarrow> bool" where
  "usable now t \<longleftrightarrow>
     is_active t
     \<and> (case cooled_until t of None \<Rightarrow> True | Some c \<Rightarrow> c < now)
     \<and> (case expiry_time t of None \<Rightarrow> False | Some e \<Rightarrow> now < e)"

subsection \<open>Sparse update of a token\<close>








subsection \<open>A credential for the concrete instances\<close>

definition sample_token :: Token where
  "sample_token =
     \<lparr>Token.id_col = 0, token = ''sess-1'', email = ''a@example.org'', username = ''alice'',
      name = ''Alice'', st = None, rt = None, client_id = None, proxy_url = None,
      remark = None, expiry_time = Some 1000, is_active = True, cooled_until = None,
      created_at = None, last_used_at = None, use_count = 0, plan_type = None,
      plan_title = None, subscription_end = None, sora2_supported = None,
      sora2_invite_code = None, sora2_redeemed_count = 0, sora2_total_count = 0,
      sora2_remaining_count = 0, sora2_cooldown_until = None, image_enabled = True,
      video_enabled = True, image_concurrency = - 1, video_concurrency = - 1,
      is_expired = False\<rparr>"

definition sample_stats :: TokenStats where
  "sample_stats =
     \<lparr>TokenStats.id_col = 1, token_id = 1, image_count = 41, video_count = 5,
      error_count = 3, last_error_at = None, today_image_count = 7, today_video_count = 2,
      today_error_count = 2, today_date = Some 19, consecutive_error_count = 1\<rparr>"

text \<open>
  Four credentials at time 100: one used at 50, one never used, one cooling down until
  200, one without an expiry time.
\<close>

definition sample_db :: database where
  "sample_db =
     init_db\<lparr>tokens :=
               [sample_token\<lparr>Token.id_col := 1, token := ''used'', last_used_at := Some 50\<rparr>,
                sample_token\<lparr>Token.id_col := 2, token := ''never-used''\<rparr>,
                sample_token\<lparr>Token.id_col := 3, token := ''cooling'', cooled_until := Some 200\<rparr>,
                sample_token\<lparr>Token.id_col := 4, token := ''no-expiry'', expiry_time := None\<rparr>],
             tokens_id_seq := 5,
             token_stats := [sample_stats],
             token_stats_id_seq := 2\<rparr>"

section \<open>Usage counters and the day rollover\<close>








section \<open>Listing the active tokens\<close>

lemma active_where_usable: "(active_where now t = Some True) = usable now t"
  by (auto simp: active_where_def usable_def sql_and_def sql_or_def sql_lt_def sql_gt_def
      sql_is_null_def split: option.splits)

lemma mset_insert_by_last_used_at: "mset (insert_by_last_used_at t rs) = add_mset t (mset rs)"
  by (induction rs) auto

lemma mset_order_by_last_used_at: "mset (order_by_last_used_at ts) = mset ts"
  by (induction ts) (auto simp: mset_insert_by_last_used_at)

lemma set_insert_by_last_used_at: "set (insert_by_last_used_at t rs) = insert t (set rs)"
  by (induction rs) auto

lemma set_order_by_last_used_at: "set (order_by_last_used_at ts) = set ts"
  by (induction ts) (auto simp: set_insert_by_last_used_at)

lemma nulls_first_le_total: "nulls_first_le a b \<or> nulls_first_le b a"
  by (auto simp: nulls_first_le_def split: option.splits)

lemma nulls_first_le_trans: "nulls_first_le a b \<Longrightarrow> nulls_first_le b c \<Longrightarrow> nulls_first_le a c"
  by (auto simp: nulls_first_le_def split: option.splits)

lemma sorted_insert_by_last_used_at:
  "sorted_wrt (\<lambda>a b. nulls_first_le (last_used_at a) (last_used_at b)) rs \<Longrightarrow>
   sorted_wrt (\<lambda>a b. nulls_first_le (last_used_at a) (last_used_at b))
     (insert_by_last_used_at t rs)"
proof (induction rs)
  case Nil
  then show ?case by simp
next
  case (Cons r rs)
  show ?case
  proof (cases "nulls_first_le (last_used_at t) (last_used_at r)")
    case True
    with Cons.prems show ?thesis
      by (auto intro: nulls_first_le_trans)
  next
    case False
    then have "nulls_first_le (last_used_at r) (last_used_at t)"
      using nulls_first_le_total by blast
    with False Cons show ?thesis
      by (auto simp: set_insert_by_last_used_at)
  qed
qed

lemma sorted_order_by_last_used_at:
  "sorted_wrt (\<lambda>a b. nulls_first_le (last_used_at a) (last_used_at b))
     (order_by_last_used_at ts)"
  by (induction ts) (auto simp: sorted_insert_by_last_used_at)

text \<open>
  C5. \<open>get_active_tokens\<close> returns the usable credentials of the table and no others,
  each as often as the table holds it, and in the result a credential never stands
  before one with a smaller \<open>last_used_at\<close>, NULL counting as smaller than every
  timestamp.
\<close>

theorem get_active_tokens_usable_in_order:
  "mset (get_active_tokens now db) = mset (filter (usable now) (tokens db))
   \<and> sorted_wrt (\<lambda>a b. nulls_first_le (last_used_at a) (last_used_at b))
        (get_active_tokens now db)"
  by (simp add: get_active_tokens_def mset_order_by_last_used_at active_where_usable
      sorted_order_by_last_used_at)

text \<open>
  At time 100 the sample table gives the never-used credential first, then the one used
  at 50; the cooling one and the one without expiry are left out.
\<close>

theorem get_active_tokens_usable_in_order_witness:
  "map token (get_active_tokens 100 sample_db) = [''never-used'', ''used'']
   \<and> map token (filter (usable 100) (tokens sample_db)) = [''used'', ''never-used'']"
  using get_active_tokens_usable_in_order [of 100 sample_db]
  by (simp add: get_active_tokens_def sample_db_def sample_token_def init_db_def
      active_where_def usable_def sql_and_def sql_or_def sql_lt_def sql_gt_def sql_is_null_def
      nulls_first_le_def)

text \<open>
  C9. A credential whose \<open>expiry_time\<close> is NULL is never in the result of
  \<open>get_active_tokens\<close>, whatever its other columns hold.
\<close>

theorem get_active_tokens_excludes_null_expiry:
  "expiry_time t = None \<Longrightarrow> t \<notin> set (get_active_tokens now db)"
  by (simp add: get_active_tokens_def set_order_by_last_used_at active_where_def sql_gt_def
      sql_and_def)

text \<open>
  The fourth sample credential is active, not cooling down and has no expiry time: it is
  in the table and not in the result.
\<close>

theorem get_active_tokens_excludes_null_expiry_witness:
  "expiry_time (tokens sample_db ! 3) = None
   \<and> is_active (tokens sample_db ! 3)
   \<and> cooled_until (tokens sample_db ! 3) = None
   \<and> tokens sample_db ! 3 \<in> set (tokens sample_db)
   \<and> tokens sample_db ! 3 \<notin> set (get_active_tokens 100 sample_db)"
proof -
  have h: "expiry_time (tokens sample_db ! 3) = None"
    by (simp add: sample_db_def sample_token_def init_db_def)
  show ?thesis
    using h get_active_tokens_excludes_null_expiry [OF h, of 100 sample_db]
    by (simp add: sample_db_def sample_token_def init_db_def)
qed

section \<open>Adding a token\<close>

lemma insert_into_tokens_cases:
  "insert_into_tokens now t db = (db1, res) \<Longrightarrow>
     token_stats db1 = token_stats db
     \<and> token_stats_id_seq db1 = token_stats_id_seq db
     \<and> (case res of
          Inl e \<Rightarrow> tokens db1 = tokens db
        | Inr tid \<Rightarrow> tid = tokens_id_seq db
            \<and> tokens db1 = tokens db @
                 [t\<lparr>Token.id_col := tokens_id_seq db, username := [], cooled_until := None,
                    created_at := Some now, last_used_at := None, use_count := 0,
                    is_expired := False\<rparr>])"
  by (auto simp: insert_into_tokens_def Let_def split: if_splits)

lemma insert_into_token_stats_cases:
  "insert_into_token_stats tid db = (db2, res) \<Longrightarrow>
     tokens db2 = tokens db
     \<and> (case res of
          Inl e \<Rightarrow> token_stats db2 = token_stats db
        | Inr u \<Rightarrow> token_stats db2 = token_stats db @
              [\<lparr>TokenStats.id_col = token_stats_id_seq db, token_id = tid, image_count = 0,
                video_count = 0, error_count = 0, last_error_at = None,
                today_image_count = 0, today_video_count = 0, today_error_count = 0,
                today_date = None, consecutive_error_count = 0\<rparr>])"
  by (auto simp: insert_into_token_stats_def Let_def split: if_splits)

lemma add_token_cases:
  assumes "add_token faults now t db = (db', result)"
  shows "(statement_fault faults 0 \<noteq> None \<and> db' = db
            \<and> result = Inl (the (statement_fault faults 0)))
       \<or> (statement_fault faults 0 = None \<and>
           (\<exists>db1 r1. insert_into_tokens now t db = (db1, r1) \<and>
              ((\<exists>e. r1 = Inl e \<and> db' = db1 \<and> result = Inl e)
               \<or> (\<exists>tid. r1 = Inr tid \<and>
                    ((statement_fault faults 1 \<noteq> None \<and> db' = db1
                        \<and> result = Inl (the (statement_fault faults 1)))
                     \<or> (statement_fault faults 1 = None \<and>
                          (\<exists>r2. insert_into_token_stats tid db1 = (db', r2) \<and>
                             ((\<exists>e. r2 = Inl e \<and> result = Inl e)
                              \<or> (r2 = Inr () \<and> result = Inr tid)))))))))"
  using assms
  by (auto simp: add_token_def split: option.splits prod.splits sum.splits)

lemma add_token_success:
  assumes "add_token faults now t db = (db', Inr tid)"
  shows "tid = tokens_id_seq db"
    and "tokens db' = tokens db @
           [t\<lparr>Token.id_col := tid, username := [], cooled_until := None,
              created_at := Some now, last_used_at := None, use_count := 0,
              is_expired := False\<rparr>]"
    and "token_stats db' = token_stats db @
           [\<lparr>TokenStats.id_col = token_stats_id_seq db, token_id = tid, image_count = 0,
             video_count = 0, error_count = 0, last_error_at = None,
             today_image_count = 0, today_video_count = 0, today_error_count = 0,
             today_date = None, consecutive_error_count = 0\<rparr>]"
proof -
  from add_token_cases [OF assms] obtain db1 where
    i1: "insert_into_tokens now t db = (db1, Inr tid)" and
    i2: "insert_into_token_stats tid db1 = (db', Inr ())"
    by auto
  from insert_into_tokens_cases [OF i1] insert_into_token_stats_cases [OF i2]
  show "tid = tokens_id_seq db"
    and "tokens db' = tokens db @
           [t\<lparr>Token.id_col := tid, username := [], cooled_until := None,
              created_at := Some now, last_used_at := None, use_count := 0,
              is_expired := False\<rparr>]"
    and "token_stats db' = token_stats db @
           [\<lparr>TokenStats.id_col = token_stats_id_seq db, token_id = tid, image_count = 0,
             video_count = 0, error_count = 0, last_error_at = None,
             today_image_count = 0, today_video_count = 0, today_error_count = 0,
             today_date = None, consecutive_error_count = 0\<rparr>]"
    by simp_all
qed

lemma add_token_failure:
  assumes "add_token faults now t db = (db', Inl e)"
  shows "token_stats db' = token_stats db
         \<and> (tokens db' = tokens db
            \<or> tokens db' = tokens db @
                 [t\<lparr>Token.id_col := tokens_id_seq db, username := [], cooled_until := None,
                    created_at := Some now, last_used_at := None, use_count := 0,
                    is_expired := False\<rparr>])"
proof -
  from add_token_cases [OF assms]
  consider (first) "db' = db"
    | (refused) db1 e1 where "insert_into_tokens now t db = (db1, Inl e1)" "db' = db1"
    | (second) db1 tid where "insert_into_tokens now t db = (db1, Inr tid)" "db' = db1"
    | (stats) db1 tid e2 where "insert_into_tokens now t db = (db1, Inr tid)"
        "insert_into_token_stats tid db1 = (db', Inl e2)"
    by auto
  then show ?thesis
  proof cases
    case first
    then show ?thesis by simp
  next
    case refused
    from insert_into_tokens_cases [OF refused(1)] refused(2) show ?thesis by simp
  next
    case second
    from insert_into_tokens_cases [OF second(1)] second(2) show ?thesis by simp
  next
    case stats
    from insert_into_tokens_cases [OF stats(1)] insert_into_token_stats_cases [OF stats(2)]
    show ?thesis by simp
  qed
qed





text \<open>
  C10. Whatever \<open>username\<close> the credential carries, the row \<open>add_token\<close> stores has the
  empty string as its \<open>username\<close>: when the call returns an id, the new row is the
  credential with that id, an empty \<open>username\<close> and the column defaults; and however the
  call ends, every row of \<open>tokens\<close> that was not there before has an empty \<open>username\<close>.
\<close>

theorem add_token_discards_username:
  assumes "add_token faults now t db = (db', result)"
  shows "(\<forall>tid. result = Inr tid \<longrightarrow>
            (\<exists>r. tokens db' = tokens db @ [r] \<and> Token.id_col r = tid \<and> username r = []
                 \<and> r = t\<lparr>Token.id_col := tid, username := [], cooled_until := None,
                          created_at := Some now, last_used_at := None, use_count := 0,
                          is_expired := False\<rparr>))
       \<and> (\<forall>r \<in> set (tokens db'). r \<in> set (tokens db) \<or> username r = [])"
proof (intro conjI allI impI ballI)
  fix tid assume "result = Inr tid"
  with assms have a: "add_token faults now t db = (db', Inr tid)" by simp
  from add_token_success(2) [OF a]
  show "\<exists>r. tokens db' = tokens db @ [r] \<and> Token.id_col r = tid \<and> username r = []
           \<and> r = t\<lparr>Token.id_col := tid, username := [], cooled_until := None,
                    created_at := Some now, last_used_at := None, use_count := 0,
                    is_expired := False\<rparr>"
    by simp
next
  fix r assume r: "r \<in> set (tokens db')"
  show "r \<in> set (tokens db) \<or> username r = []"
  proof (cases result)
    case (Inl e)
    with assms have a: "add_token faults now t db = (db', Inl e)" by simp
    from add_token_failure [OF a] r show ?thesis by auto
  next
    case (Inr tid)
    with assms have a: "add_token faults now t db = (db', Inr tid)" by simp
    from add_token_success(2) [OF a] r show ?thesis by auto
  qed
qed

text \<open>The sample credential carries the username \<open>alice\<close>; its stored row carries none.\<close>

theorem add_token_discards_username_witness:
  "username sample_token = ''alice''
   \<and> snd (add_token [] 5 sample_token init_db) = Inr 1
   \<and> map (\<lambda>r. (Token.id_col r, username r))
       (tokens (fst (add_token [] 5 sample_token init_db))) = [(1, [])]"
  using add_token_discards_username [of "[]" 5 sample_token init_db
      "fst (add_token [] 5 sample_token init_db)" "snd (add_token [] 5 sample_token init_db)"]
  by (simp add: add_token_def statement_fault_def insert_into_tokens_def
      insert_into_token_stats_def init_db_def sample_token_def Let_def)

section \<open>Sparse update of a token\<close>









section \<open>Probing the catalog\<close>

lemma column_exists_never_raises:
  "\<exists>b. column_exists fault conn table_name column_name = Inr b"
  by (cases fault) (auto simp: column_exists_def fetchval_def)

text \<open>
  C6. When the probe query raises, \<open>_column_exists\<close> answers \<open>False\<close>, while
  \<open>_table_exists\<close> lets the exception through to its caller.
\<close>

theorem table_exists_raises_on_probe_failure:
  "table_exists (Some e) conn table_name = Inl e
   \<and> column_exists (Some e) conn table_name column_name = Inr False"
  by (simp add: table_exists_def column_exists_def fetchval_def bind_err_def)

section \<open>The configuration rows\<close>

text \<open>On a fresh database and without overrides the bootstrap stores the defaults.\<close>

lemma ensure_config_rows_defaults:
  "ensure_config_rows None now init_db =
     (init_db\<lparr>
        admin_config :=
          [\<lparr>AdminConfig.id_col = 1, admin_username = Some ''admin'',
            admin_password = Some ''admin'', api_key = Some ''han1234'',
            error_ban_threshold = Some 3, task_retry_enabled = Some True,
            task_max_retries = Some 3, auto_disable_on_401 = Some True,
            AdminConfig.updated_at = Some now\<rparr>],
        proxy_config :=
          [\<lparr>ProxyConfig.id_col = 1, proxy_enabled = Some False, ProxyConfig.proxy_url = None,
            ProxyConfig.created_at = Some now, ProxyConfig.updated_at = Some now\<rparr>],
        watermark_free_config :=
          [\<lparr>WatermarkFreeConfig.id_col = 1, watermark_free_enabled = Some False,
            parse_method = Some ''third_party'', custom_parse_url = None,
            custom_parse_token = None, fallback_on_failure = Some True,
            WatermarkFreeConfig.created_at = Some now,
            WatermarkFreeConfig.updated_at = Some now\<rparr>],
        cache_config :=
          [\<lparr>CacheConfig.id_col = 1, cache_enabled = Some False, cache_timeout = Some 600,
            cache_base_url = None, CacheConfig.created_at = Some now,
            CacheConfig.updated_at = Some now\<rparr>],
        generation_config :=
          [\<lparr>GenerationConfig.id_col = 1, image_timeout = Some 300, video_timeout = Some 3000,
            GenerationConfig.created_at = Some now, GenerationConfig.updated_at = Some now\<rparr>],
        token_refresh_config :=
          [\<lparr>TokenRefreshConfig.id_col = 1, at_auto_refresh_enabled = Some False,
            TokenRefreshConfig.created_at = Some now,
            TokenRefreshConfig.updated_at = Some now\<rparr>],
        call_logic_config :=
          [\<lparr>CallLogicConfig.id_col = 1, call_mode = Some ''default'',
            polling_mode_enabled = Some False, CallLogicConfig.created_at = Some now,
            CallLogicConfig.updated_at = Some now\<rparr>],
        pow_proxy_config :=
          [\<lparr>PowProxyConfig.id_col = 1, pow_proxy_enabled = Some False, pow_proxy_url = None,
            PowProxyConfig.created_at = Some now, PowProxyConfig.updated_at = Some now\<rparr>]\<rparr>,
      Inr ())"
  by (simp add: ensure_config_rows_def init_db_def ensure_admin_config_row_def
      ensure_proxy_config_row_def ensure_watermark_free_config_row_def
      ensure_cache_config_row_def ensure_generation_config_row_def
      ensure_token_refresh_config_row_def ensure_call_logic_config_row_def
      ensure_pow_proxy_config_row_def call_logic_values_def config_truthy_def bind_err_def
      int4_range_def)

subsection \<open>Empty strings in the optional URL and token fields\<close>

text \<open>
  The bootstrap turns an empty string into NULL before it stores it
  (\<open>x if x else None\<close>), and so does \<open>update_cache_config\<close>.
\<close>

lemma text_param_or_none: "text_param (or_none v) = Inr a \<Longrightarrow> a \<noteq> Some []"
  by (cases v) (auto simp: or_none_def split: if_splits)

lemma ensure_proxy_config_row_no_empty_string:
  assumes "ensure_proxy_config_row config now db = Inr db'"
    and "\<forall>r \<in> set (proxy_config db). ProxyConfig.proxy_url r \<noteq> Some []"
  shows "\<forall>r \<in> set (proxy_config db'). ProxyConfig.proxy_url r \<noteq> Some []"
  using assms
  by (auto simp: ensure_proxy_config_row_def bind_err_def Let_def
      split: if_splits sum.splits dest: text_param_or_none)

lemma ensure_watermark_free_config_row_no_empty_string:
  assumes "ensure_watermark_free_config_row config now db = Inr db'"
    and "\<forall>r \<in> set (watermark_free_config db).
           custom_parse_url r \<noteq> Some [] \<and> custom_parse_token r \<noteq> Some []"
  shows "\<forall>r \<in> set (watermark_free_config db').
           custom_parse_url r \<noteq> Some [] \<and> custom_parse_token r \<noteq> Some []"
  using assms
  by (auto simp: ensure_watermark_free_config_row_def bind_err_def Let_def
      split: if_splits sum.splits dest: text_param_or_none)

lemma ensure_cache_config_row_no_empty_string:
  assumes "ensure_cache_config_row config now db = Inr db'"
    and "\<forall>r \<in> set (cache_config db). cache_base_url r \<noteq> Some []"
  shows "\<forall>r \<in> set (cache_config db'). cache_base_url r \<noteq> Some []"
  using assms
  by (auto simp: ensure_cache_config_row_def bind_err_def Let_def
      split: if_splits sum.splits dest: text_param_or_none)

lemma ensure_pow_proxy_config_row_no_empty_string:
  assumes "ensure_pow_proxy_config_row config now db = Inr db'"
    and "\<forall>r \<in> set (pow_proxy_config db). pow_proxy_url r \<noteq> Some []"
  shows "\<forall>r \<in> set (pow_proxy_config db'). pow_proxy_url r \<noteq> Some []"
  using assms
  by (auto simp: ensure_pow_proxy_config_row_def bind_err_def Let_def
      split: if_splits sum.splits dest: text_param_or_none)

lemma update_cache_config_no_empty_string:
  assumes "\<forall>r \<in> set (cache_config db). cache_base_url r \<noteq> Some []"
  shows "\<forall>r \<in> set (cache_config (update_cache_config enabled timeout base_url now db)).
           cache_base_url r \<noteq> Some []"
  using assms
  by (auto simp: update_cache_config_def Let_def split: option.splits)

text \<open>
  C8. The other update methods store the argument as it is. On the rows the bootstrap
  made, \<open>update_proxy_config(True, "")\<close>, \<open>update_pow_proxy_config(True, "")\<close> and
  \<open>update_watermark_free_config(True, None, "", "", None)\<close> each leave the empty string
  in the column.
\<close>

theorem update_config_stores_empty_string:
  "map ProxyConfig.proxy_url
     (proxy_config (update_proxy_config True (Some []) 1
        (fst (ensure_config_rows None 0 init_db)))) = [Some []]
   \<and> map pow_proxy_url
     (pow_proxy_config (update_pow_proxy_config True (Some []) 1
        (fst (ensure_config_rows None 0 init_db)))) = [Some []]
   \<and> map (\<lambda>r. (custom_parse_url r, custom_parse_token r))
     (watermark_free_config (update_watermark_free_config True None (Some []) (Some []) None 1
        (fst (ensure_config_rows None 0 init_db)))) = [(Some [], Some [])]"
  by (simp add: ensure_config_rows_defaults update_proxy_config_def update_pow_proxy_config_def
      update_watermark_free_config_def)

subsection \<open>The call mode and its legacy flag\<close>

text \<open>
  What the bootstrap computes from a truthy \<open>config_dict\<close>: with \<open>cm\<close> the value
  read for \<open>call_mode\<close> (\<open>"default"\<close> when the key is absent) and \<open>legacy\<close> the value
  read for \<open>polling_mode_enabled\<close>.
\<close>

lemma call_logic_values_legacy:
  assumes "config_truthy config"
    and "dict_get (get_section config ''call_logic'') ''call_mode'' (PyStr ''default'') = cm"
    and "dict_get (get_section config ''call_logic'') ''polling_mode_enabled'' (PyBool False)
           = legacy"
  shows "call_logic_values config =
     (if cm \<noteq> PyStr ''default'' \<and> cm \<noteq> PyStr ''polling''
      then (PyStr (if truthy legacy then ''polling'' else ''default''), legacy)
      else (cm, PyBool (cm = PyStr ''polling'')))"
  using assms by (simp add: call_logic_values_def Let_def)

text \<open>Every write leaves the two columns consistent.\<close>

lemma call_logic_values_consistent:
  "text_param (Some (fst (call_logic_values config))) = Inr a1 \<Longrightarrow>
   bool_param (Some (snd (call_logic_values config))) = Inr a2 \<Longrightarrow>
   (a1 = Some ''polling'') = (a2 = Some True)
   \<and> (a1 = Some ''polling'' \<or> a1 = Some ''default'')"
  by (cases "dict_get (get_section config ''call_logic'') ''polling_mode_enabled'' (PyBool False)")
     (auto simp: call_logic_values_def Let_def split: if_splits)

lemma ensure_call_logic_config_row_consistent:
  assumes "ensure_call_logic_config_row config now db = Inr db'"
    and "\<forall>r \<in> set (call_logic_config db).
           (call_mode r = Some ''polling'') = (polling_mode_enabled r = Some True)"
  shows "\<forall>r \<in> set (call_logic_config db').
           (call_mode r = Some ''polling'') = (polling_mode_enabled r = Some True)"
proof (cases "call_logic_config db = []")
  case False
  with assms show ?thesis by (simp add: ensure_call_logic_config_row_def)
next
  case True
  with assms(1) obtain a1 a2 where
    p: "text_param (Some (fst (call_logic_values config))) = Inr a1"
       "bool_param (Some (snd (call_logic_values config))) = Inr a2"
    and d: "call_logic_config db' =
       [\<lparr>CallLogicConfig.id_col = 1, call_mode = a1, polling_mode_enabled = a2,
         CallLogicConfig.created_at = Some now, CallLogicConfig.updated_at = Some now\<rparr>]"
    by (auto simp: ensure_call_logic_config_row_def bind_err_def split: sum.splits)
  from call_logic_values_consistent [OF p] d show ?thesis by simp
qed

lemma update_call_logic_config_consistent:
  assumes "\<forall>r \<in> set (call_logic_config db).
           (call_mode r = Some ''polling'') = (polling_mode_enabled r = Some True)"
  shows "\<forall>r \<in> set (call_logic_config (update_call_logic_config cm now db)).
           (call_mode r = Some ''polling'') = (polling_mode_enabled r = Some True)"
  using assms by (auto simp: update_call_logic_config_def Let_def)

text \<open>
  A value for \<open>call_mode\<close> that is neither literal does bring the legacy flag in: with
  \<open>call_mode = ""\<close> and \<open>polling_mode_enabled = true\<close> the stored mode is
  \<open>"polling"\<close>.
\<close>

lemma legacy_polling_flag_with_unrecognized_call_mode:
  "map (\<lambda>r. (call_mode r, polling_mode_enabled r))
     (call_logic_config (fst (ensure_config_rows
        (Some [(''call_logic'',
                [(''call_mode'', PyStr []), (''polling_mode_enabled'', PyBool True)])])
        0 init_db)))
   = [(Some ''polling'', Some True)]"
  by (simp add: ensure_config_rows_def init_db_def ensure_admin_config_row_def
      ensure_proxy_config_row_def ensure_watermark_free_config_row_def
      ensure_cache_config_row_def ensure_generation_config_row_def
      ensure_token_refresh_config_row_def ensure_call_logic_config_row_def
      ensure_pow_proxy_config_row_def call_logic_values_def config_truthy_def bind_err_def
      int4_range_def get_section_def dict_get_def or_none_def)

text \<open>
  C3. With the overrides \<open>{"call_logic": {"polling_mode_enabled": True}}\<close>, that is the
  legacy flag and no \<open>call_mode\<close>, the bootstrap of a fresh database stores
  \<open>call_mode = "default"\<close> and \<open>polling_mode_enabled = False\<close>: the absent key reads as
  \<open>"default"\<close>, which is a recognized literal, so the legacy flag is never looked at.
\<close>

theorem legacy_polling_flag_ignored:
  "map (\<lambda>r. (call_mode r, polling_mode_enabled r))
     (call_logic_config (fst (ensure_config_rows
        (Some [(''call_logic'', [(''polling_mode_enabled'', PyBool True)])]) 0 init_db)))
   = [(Some ''default'', Some False)]"
  by (simp add: ensure_config_rows_def init_db_def ensure_admin_config_row_def
      ensure_proxy_config_row_def ensure_watermark_free_config_row_def
      ensure_cache_config_row_def ensure_generation_config_row_def
      ensure_token_refresh_config_row_def ensure_call_logic_config_row_def
      ensure_pow_proxy_config_row_def call_logic_values_def config_truthy_def bind_err_def
      int4_range_def get_section_def dict_get_def or_none_def)

end
